theory Spec2Isabelle
  imports Complex_Main "HOL-Library.Sublist"
begin

section \<open>Python values used by main.py\<close>

text \<open>
  A Python \<^verbatim>\<open>str\<close> is a sequence of Unicode code points, so it is modelled as a list of
  naturals: the euro sign of the price regex is the single code point 8364, which no
  8-bit character holds. \<open>ustr\<close> writes an ASCII literal as such a list.
\<close>

type_synonym pystr = "nat list"

definition ustr :: "string \<Rightarrow> pystr" where
  "ustr s = map of_char s"

text \<open>
  The parts of the Python runtime that main.py calls and that are tables or library
  routines outside the repository are parameters of the model:
  \<^item> \<open>py_isdecimal\<close>: the class \<^verbatim>\<open>\d\<close> of a \<^verbatim>\<open>str\<close> pattern (Unicode category Nd);
  \<^item> \<open>py_lower\<close>: \<^verbatim>\<open>str.lower()\<close>;
  \<^item> \<open>py_float\<close>: \<^verbatim>\<open>float(s)\<close>, \<open>None\<close> when it raises \<^verbatim>\<open>ValueError\<close>;
  \<^item> \<open>py_lt\<close>: \<^verbatim>\<open>a < b\<close> on floats (\<^verbatim>\<open>a > b\<close> is \<^verbatim>\<open>b < a\<close>).
  Every theorem below holds for every such runtime.
\<close>

record 'f pyrt =
  py_isdecimal :: "nat \<Rightarrow> bool"
  py_lower :: "pystr \<Rightarrow> pystr"
  py_float :: "pystr \<Rightarrow> 'f option"
  py_lt :: "'f \<Rightarrow> 'f \<Rightarrow> bool"

text \<open>
  \<^verbatim>\<open>str.isspace\<close> on one code point, which is also the class \<^verbatim>\<open>\s\<close> of a \<^verbatim>\<open>str\<close>
  pattern and what \<^verbatim>\<open>str.strip()\<close> removes.
\<close>

definition isspace :: "nat \<Rightarrow> bool" where
  "isspace c \<longleftrightarrow>
     (9 \<le> c \<and> c \<le> 13) \<or> (28 \<le> c \<and> c \<le> 32) \<or> c = 133 \<or> c = 160 \<or> c = 5760 \<or>
     (8192 \<le> c \<and> c \<le> 8202) \<or> c = 8232 \<or> c = 8233 \<or> c = 8239 \<or> c = 8287 \<or>
     c = 12288"

definition lstrip :: "pystr \<Rightarrow> pystr" where
  "lstrip s = dropWhile isspace s"

definition rstrip :: "pystr \<Rightarrow> pystr" where
  "rstrip s = rev (dropWhile isspace (rev s))"

definition strip :: "pystr \<Rightarrow> pystr" where
  "strip s = rstrip (lstrip s)"

text \<open>\<^verbatim>\<open>s.replace(",", "")\<close>: the comma is code point 44.\<close>

definition remove_commas :: "pystr \<Rightarrow> pystr" where
  "remove_commas s = filter (\<lambda>c. c \<noteq> 44) s"

section \<open>The price pattern\<close>

text \<open>
  The search of the final fallback: a group holding one of the three glyphs euro sign
  (code point 8364), dollar sign (36) and pound sign (163), then
  \<^verbatim>\<open>\s?(\d[\d,]*\.\d{2})\<close>. It is written as the backtracking matcher it is: the
  leftmost start position wins, \<^verbatim>\<open>\s?\<close> first tries to take a space, \<^verbatim>\<open>[\d,]*\<close> first
  tries to take one more character and gives it back when the rest fails. The result
  is the pair of groups (glyph, number).
\<close>

definition match_fraction :: "'f pyrt \<Rightarrow> pystr \<Rightarrow> pystr option" where
  "match_fraction rt cs =
     (case cs of
        d # a # b # _ \<Rightarrow>
          if d = 46 \<and> py_isdecimal rt a \<and> py_isdecimal rt b then Some [d, a, b] else None
      | _ \<Rightarrow> None)"

fun match_run :: "'f pyrt \<Rightarrow> pystr \<Rightarrow> pystr option" where
  "match_run rt [] = match_fraction rt []"
| "match_run rt (c # cs) =
     (if py_isdecimal rt c \<or> c = 44 then
        (case match_run rt cs of
           Some r \<Rightarrow> Some (c # r)
         | None \<Rightarrow> match_fraction rt (c # cs))
      else match_fraction rt (c # cs))"

definition match_number :: "'f pyrt \<Rightarrow> pystr \<Rightarrow> pystr option" where
  "match_number rt cs =
     (case cs of
        [] \<Rightarrow> None
      | d # r \<Rightarrow> if py_isdecimal rt d then map_option ((#) d) (match_run rt r) else None)"

definition is_glyph :: "nat \<Rightarrow> bool" where
  "is_glyph c \<longleftrightarrow> c = 8364 \<or> c = 36 \<or> c = 163"

definition match_here :: "'f pyrt \<Rightarrow> pystr \<Rightarrow> (nat \<times> pystr) option" where
  "match_here rt cs =
     (case cs of
        [] \<Rightarrow> None
      | g # r \<Rightarrow>
          if is_glyph g then
            (case (case r of
                     [] \<Rightarrow> None
                   | s # r' \<Rightarrow> if isspace s then match_number rt r' else None) of
               Some n \<Rightarrow> Some (g, n)
             | None \<Rightarrow> map_option (Pair g) (match_number rt r))
          else None)"

fun re_search :: "'f pyrt \<Rightarrow> pystr \<Rightarrow> (nat \<times> pystr) option" where
  "re_search rt [] = None"
| "re_search rt (c # cs) =
     (case match_here rt (c # cs) of
        Some m \<Rightarrow> Some m
      | None \<Rightarrow> re_search rt cs)"

section \<open>Element handles\<close>

text \<open>
  The locators main.py passes to Selenium:
  \<^item> \<open>H2_SPAN\<close>: CSS \<^verbatim>\<open>h2 span\<close>; \<open>H2\<close>: CSS \<^verbatim>\<open>h2\<close>;
  \<^item> \<open>A_LINK_NORMAL_S_LINK_STYLE\<close>: CSS \<^verbatim>\<open>a.a-link-normal.s-link-style\<close>;
    \<open>A_LINK_NORMAL\<close>: CSS \<^verbatim>\<open>a.a-link-normal\<close>;
  \<^item> \<open>SPAN_A_PRICE\<close>: XPath \<^verbatim>\<open>.//span[contains(@class, 'a-price')]\<close>;
  \<^item> \<open>A_OFFSCREEN\<close>, \<open>A_PRICE_WHOLE\<close>, \<open>A_PRICE_FRACTION\<close>, \<open>A_PRICE_SYMBOL\<close>: the class
    names \<^verbatim>\<open>a-offscreen\<close>, \<^verbatim>\<open>a-price-whole\<close>, \<^verbatim>\<open>a-price-fraction\<close>, \<^verbatim>\<open>a-price-symbol\<close>.

  An element handle is what the code can observe of it: its \<^verbatim>\<open>.text\<close>, its attributes,
  and for each locator the element \<^verbatim>\<open>find_element\<close> returns (none listed: it raises
  \<^verbatim>\<open>NoSuchElementException\<close>).
\<close>

datatype selector =
    H2_SPAN | H2 | A_LINK_NORMAL_S_LINK_STYLE | A_LINK_NORMAL
  | SPAN_A_PRICE | A_OFFSCREEN | A_PRICE_WHOLE | A_PRICE_FRACTION | A_PRICE_SYMBOL

datatype exn = NoSuchElementException

datatype element =
  Element (text_of: pystr) (attributes: "(string \<times> pystr) list")
    (found: "(selector \<times> element) list")

definition find_element :: "element \<Rightarrow> selector \<Rightarrow> exn + element" where
  "find_element e sel =
     (case map_of (found e) sel of
        None \<Rightarrow> Inl NoSuchElementException
      | Some c \<Rightarrow> Inr c)"

definition get_attribute :: "element \<Rightarrow> string \<Rightarrow> pystr option" where
  "get_attribute e name = map_of (attributes e) name"

section \<open>Field extractor: \<^verbatim>\<open>_parse_price_block\<close>\<close>

text \<open>
  The source returns the pair (price, currency), or (None, None); the two are \<open>None\<close>
  together, so the model returns an optional pair, in the source's order.
\<close>

definition parse_price_block :: "'f pyrt \<Rightarrow> element \<Rightarrow> (pystr \<times> pystr) option" where
  "parse_price_block rt product_element =
     (case find_element product_element SPAN_A_PRICE of
        Inl _ \<Rightarrow> None
      | Inr price_container \<Rightarrow>
          (case (case find_element price_container A_OFFSCREEN of
                   Inl _ \<Rightarrow> []
                 | Inr offscreen_el \<Rightarrow> strip (text_of offscreen_el)) of
             currency_char # rest \<Rightarrow> Some (remove_commas (strip rest), [currency_char])
           | [] \<Rightarrow>
               (case find_element price_container A_PRICE_WHOLE of
                  Inl _ \<Rightarrow> None
                | Inr whole_el \<Rightarrow>
                    (case find_element price_container A_PRICE_FRACTION of
                       Inl _ \<Rightarrow> None
                     | Inr fraction_el \<Rightarrow>
                         (let whole = strip (remove_commas (text_of whole_el));
                              fraction = strip (text_of fraction_el);
                              price_value = whole @ [46] @ fraction;
                              currency =
                                (case find_element price_container A_PRICE_SYMBOL of
                                   Inl _ \<Rightarrow> []
                                 | Inr symbol_el \<Rightarrow> strip (text_of symbol_el))
                          in if price_value \<noteq> [] \<and> currency \<noteq> [] then
                               Some (price_value, currency)
                             else
                               (case re_search rt (text_of product_element) of
                                  Some (currency_char, numeric) \<Rightarrow>
                                    Some (remove_commas numeric, [currency_char])
                                | None \<Rightarrow> None))))))"

section \<open>Page scraper: \<^verbatim>\<open>_scrape_products_on_current_page\<close>\<close>

record Product =
  title :: pystr
  url :: pystr
  price :: pystr
  currency :: pystr
  page :: int
  position :: int

text \<open>\<^verbatim>\<open>enumerate(xs, start=i)\<close>.\<close>

primrec enumerate_from :: "int \<Rightarrow> 'a list \<Rightarrow> (int \<times> 'a) list" where
  "enumerate_from i [] = []"
| "enumerate_from i (x # xs) = (i, x) # enumerate_from (i + 1) xs"

text \<open>
  One pass of the body of the \<^verbatim>\<open>for\<close> loop, on the loop's two variables \<open>products\<close> and
  \<open>skipped_due_to_errors\<close>. The only exception the body can raise in this model is the
  \<^verbatim>\<open>NoSuchElementException\<close> of a fallback lookup (\<^verbatim>\<open>h2\<close>, \<^verbatim>\<open>a.a-link-normal\<close>); the
  \<^verbatim>\<open>except Exception\<close> clause catches it and counts it. The two \<^verbatim>\<open>continue\<close> statements
  inside the \<^verbatim>\<open>try\<close> leave both variables as they are.
\<close>

fun scrape_step ::
  "'f pyrt \<Rightarrow> int \<Rightarrow> int \<times> element \<Rightarrow> Product list \<times> nat \<Rightarrow> Product list \<times> nat" where
  "scrape_step rt page_number (index, element) (products, skipped_due_to_errors) =
     (case (case find_element element H2_SPAN of
              Inr t \<Rightarrow> Inr t
            | Inl _ \<Rightarrow> find_element element H2) of
        Inl _ \<Rightarrow> (products, skipped_due_to_errors + 1)
      | Inr title_element \<Rightarrow>
          (case (case find_element element A_LINK_NORMAL_S_LINK_STYLE of
                   Inr l \<Rightarrow> Inr l
                 | Inl _ \<Rightarrow> find_element element A_LINK_NORMAL) of
             Inl _ \<Rightarrow> (products, skipped_due_to_errors + 1)
           | Inr link_element \<Rightarrow>
               (let title' = strip (text_of title_element);
                    product_url = get_attribute link_element ''href''
                in (case product_url of
                      None \<Rightarrow> (products, skipped_due_to_errors)
                    | Some href \<Rightarrow>
                        if title' = [] \<or> href = [] then (products, skipped_due_to_errors)
                        else
                          (case parse_price_block rt element of
                             None \<Rightarrow> (products, skipped_due_to_errors)
                           | Some (price', currency') \<Rightarrow>
                               if price' = [] then (products, skipped_due_to_errors)
                               else
                                 (products @
                                    [\<lparr>title = title', url = href, price = price',
                                      currency = currency', page = page_number,
                                      position = index\<rparr>],
                                  skipped_due_to_errors))))))"

text \<open>
  The function returns \<open>products\<close>; \<open>skipped_due_to_errors\<close> is only printed. The model
  returns both, so that the counter can be spoken about.
\<close>

definition scrape_products_on_current_page ::
  "'f pyrt \<Rightarrow> element list \<Rightarrow> int \<Rightarrow> Product list \<times> nat" where
  "scrape_products_on_current_page rt product_elements page_number =
     fold (scrape_step rt page_number) (enumerate_from 1 product_elements) ([], 0)"

section \<open>Filter engine: \<^verbatim>\<open>_apply_filters\<close>\<close>

text \<open>
  One pass of the body of the \<^verbatim>\<open>for\<close> loop on the variable \<open>filtered\<close>. \<^verbatim>\<open>query\<close> is tested
  for truth before \<^verbatim>\<open>query not in product.title.lower()\<close>, and \<^verbatim>\<open>in\<close> on strings is
  the contiguous-substring test \<open>sublist\<close>.
\<close>

definition filter_step ::
  "'f pyrt \<Rightarrow> pystr option \<Rightarrow> 'f option \<Rightarrow> 'f option \<Rightarrow> Product \<Rightarrow> Product list \<Rightarrow> Product list"
  where
  "filter_step rt query min_price max_price product filtered =
     (if (case query of
            None \<Rightarrow> False
          | Some q \<Rightarrow> q \<noteq> [] \<and> \<not> sublist q (py_lower rt (title product))) then filtered
      else
        (case py_float rt (price product) of
           None \<Rightarrow> filtered
         | Some v \<Rightarrow>
             if (case min_price of None \<Rightarrow> False | Some lo \<Rightarrow> py_lt rt v lo) then filtered
             else if (case max_price of None \<Rightarrow> False | Some hi \<Rightarrow> py_lt rt hi v) then filtered
             else filtered @ [product]))"

text \<open>\<^verbatim>\<open>not title_contains\<close>: true of \<open>None\<close> and of the empty string.\<close>

definition falsy :: "pystr option \<Rightarrow> bool" where
  "falsy s \<longleftrightarrow> s = None \<or> s = Some []"

definition apply_filters ::
  "'f pyrt \<Rightarrow> Product list \<Rightarrow> 'f option \<Rightarrow> 'f option \<Rightarrow> pystr option \<Rightarrow> Product list" where
  "apply_filters rt products min_price max_price title_contains =
     (if min_price = None \<and> max_price = None \<and> falsy title_contains then products
      else
        (let query =
               (case title_contains of
                  None \<Rightarrow> None
                | Some t \<Rightarrow> if t = [] then None else Some (py_lower rt t))
         in fold (filter_step rt query min_price max_price) products []))"

section \<open>Pagination controller and aggregation loop\<close>

text \<open>
  The browser is a collaborator outside the repository. It is a parameter: a type \<open>'d\<close>
  of driver states with
  \<^item> \<open>get\<close>: the state after \<^verbatim>\<open>driver.get(url)\<close> and the wait for readiness;
  \<^item> \<open>find_elements\<close>: the product containers \<^verbatim>\<open>driver.find_elements\<close> returns for
    the locator \<^verbatim>\<open>//div[@data-component-type='s-search-result']\<close>;
  \<^item> \<open>next_button\<close>: \<open>None\<close> when looking up the enabled next-page link raises
    \<^verbatim>\<open>NoSuchElementException\<close>, else the state after the click and the wait.
\<close>

record 'd browser =
  get :: "pystr \<Rightarrow> 'd"
  find_elements :: "'d \<Rightarrow> element list"
  next_button :: "'d \<Rightarrow> 'd option"

definition go_to_next_page :: "'d browser \<Rightarrow> 'd \<Rightarrow> bool \<times> 'd" where
  "go_to_next_page br driver =
     (case next_button br driver of
        None \<Rightarrow> (False, driver)
      | Some driver' \<Rightarrow> (True, driver'))"

text \<open>
  \<^verbatim>\<open>xs[:m]\<close> for a Python integer \<open>m\<close>: a negative bound counts from the end.
\<close>

definition slice_to :: "'a list \<Rightarrow> int \<Rightarrow> 'a list" where
  "slice_to xs m = (if 0 \<le> m then take (nat m) xs else take (nat (int (length xs) + m)) xs)"

text \<open>
  One pass of the body of \<^verbatim>\<open>while True\<close>: either a \<^verbatim>\<open>break\<close>, with the final value of
  \<open>all_products\<close>, or the state in which the next pass starts (\<open>current_page\<close> is
  incremented by the loop below).
\<close>

datatype 'd cycle = Break "Product list" | Next 'd "Product list"

definition page_cycle ::
  "'f pyrt \<Rightarrow> 'd browser \<Rightarrow> int \<Rightarrow> int option \<Rightarrow> 'f option \<Rightarrow> 'f option \<Rightarrow> pystr option \<Rightarrow>
   'd \<Rightarrow> Product list \<Rightarrow> int \<Rightarrow> 'd cycle" where
  "page_cycle rt br max_pages max_products min_price max_price title_contains
     driver all_products current_page =
     (let page_products =
            fst (scrape_products_on_current_page rt (find_elements br driver) current_page);
          page_products = apply_filters rt page_products min_price max_price title_contains;
          all_products = all_products @ page_products
      in case (case max_products of
                 None \<Rightarrow> None
               | Some m \<Rightarrow> if m \<le> int (length all_products) then Some m else None) of
           Some m \<Rightarrow> Break (slice_to all_products m)
         | None \<Rightarrow>
             if max_pages \<le> current_page then Break all_products
             else
               (case go_to_next_page br driver of
                  (False, _) \<Rightarrow> Break all_products
                | (True, driver') \<Rightarrow> Next driver' all_products))"

text \<open>
  The loop. Its result is the list the source returns, the final value of
  \<open>current_page\<close>, and the number of passes made, which is the number of calls of
  \<^verbatim>\<open>_scrape_products_on_current_page\<close> (the argument \<open>cycles\<close> counts the earlier ones).
\<close>

function scrape_loop ::
  "'f pyrt \<Rightarrow> 'd browser \<Rightarrow> int \<Rightarrow> int option \<Rightarrow> 'f option \<Rightarrow> 'f option \<Rightarrow> pystr option \<Rightarrow>
   'd \<Rightarrow> Product list \<Rightarrow> int \<Rightarrow> nat \<Rightarrow> Product list \<times> int \<times> nat" where
  "scrape_loop rt br max_pages max_products min_price max_price title_contains
     driver all_products current_page cycles =
     (case page_cycle rt br max_pages max_products min_price max_price title_contains
             driver all_products current_page of
        Break result \<Rightarrow> (result, current_page, Suc cycles)
      | Next driver' all_products' \<Rightarrow>
          scrape_loop rt br max_pages max_products min_price max_price title_contains
            driver' all_products' (current_page + 1) (Suc cycles))"
  by pat_completeness auto
termination
proof (relation "measure (\<lambda>(rt, br, max_pages, max_products, min_price, max_price,
          title_contains, driver, all_products, current_page, cycles).
          nat (max_pages - current_page))")
  show "wf (measure (\<lambda>(rt :: 'f pyrt, br :: 'd browser, max_pages :: int,
          max_products :: int option, min_price :: 'f option, max_price :: 'f option,
          title_contains :: pystr option, driver :: 'd, all_products :: Product list,
          current_page :: int, cycles :: nat). nat (max_pages - current_page)))"
    by simp
next
  fix rt :: "'f pyrt" and br :: "'d browser" and max_pages :: int
    and max_products min_price max_price title_contains driver all_products
    and current_page :: int and cycles :: nat and d' a'
  assume "page_cycle rt br max_pages max_products min_price max_price title_contains
            driver all_products current_page = Next d' a'"
  then have "current_page < max_pages"
    by (auto simp: page_cycle_def Let_def
        split: option.splits if_splits prod.splits bool.splits)
  then show "((rt, br, max_pages, max_products, min_price, max_price, title_contains,
               d', a', current_page + 1, Suc cycles),
              (rt, br, max_pages, max_products, min_price, max_price, title_contains,
               driver, all_products, current_page, cycles))
             \<in> measure (\<lambda>(rt, br, max_pages, max_products, min_price, max_price,
                  title_contains, driver, all_products, current_page, cycles).
                  nat (max_pages - current_page))"
    by simp
qed

text \<open>
  The equation of the loop calls the loop again, so it is used one pass at a time.
\<close>

declare scrape_loop.simps [simp del]

definition scrape_run ::
  "'f pyrt \<Rightarrow> 'd browser \<Rightarrow> pystr \<Rightarrow> int \<Rightarrow> int option \<Rightarrow> 'f option \<Rightarrow> 'f option \<Rightarrow>
   pystr option \<Rightarrow> Product list \<times> int \<times> nat" where
  "scrape_run rt br url_arg max_pages max_products min_price max_price title_contains =
     scrape_loop rt br max_pages max_products min_price max_price title_contains
       (get br url_arg) [] 1 0"

definition scrape_amazon_prices ::
  "'f pyrt \<Rightarrow> 'd browser \<Rightarrow> pystr \<Rightarrow> int \<Rightarrow> int option \<Rightarrow> 'f option \<Rightarrow> 'f option \<Rightarrow>
   pystr option \<Rightarrow> Product list" where
  "scrape_amazon_prices rt br url_arg max_pages max_products min_price max_price
     title_contains =
     fst (scrape_run rt br url_arg max_pages max_products min_price max_price title_contains)"

section \<open>The filter engine as the specification words it\<close>

text \<open>
  \<open>query_of\<close> is the value of the variable \<open>query\<close>, and \<open>keeps\<close> the condition under which
  the loop body of \<^verbatim>\<open>_apply_filters\<close> reaches \<^verbatim>\<open>filtered.append(product)\<close>: the negation of
  each \<^verbatim>\<open>continue\<close> test, in the order of the source.
\<close>

definition query_of :: "'f pyrt \<Rightarrow> pystr option \<Rightarrow> pystr option" where
  "query_of rt title_contains =
     (case title_contains of
        None \<Rightarrow> None
      | Some t \<Rightarrow> if t = [] then None else Some (py_lower rt t))"

definition keeps :: "'f pyrt \<Rightarrow> pystr option \<Rightarrow> 'f option \<Rightarrow> 'f option \<Rightarrow> Product \<Rightarrow> bool" where
  "keeps rt query min_price max_price product \<longleftrightarrow>
     \<not> (case query of
          None \<Rightarrow> False
        | Some q \<Rightarrow> q \<noteq> [] \<and> \<not> sublist q (py_lower rt (title product))) \<and>
     (case py_float rt (price product) of
        None \<Rightarrow> False
      | Some v \<Rightarrow>
          \<not> (case min_price of None \<Rightarrow> False | Some lo \<Rightarrow> py_lt rt v lo) \<and>
          \<not> (case max_price of None \<Rightarrow> False | Some hi \<Rightarrow> py_lt rt hi v))"

text \<open>
  The predicates of the specification, each vacuously true when its parameter is
  absent. The title predicate is the case-insensitive substring test: both strings are
  lower-cased, and the empty query is a substring of every title. A price bound is
  evaluated on the price parsed as a number and fails when the price does not parse.
\<close>

definition title_matches :: "'f pyrt \<Rightarrow> pystr option \<Rightarrow> Product \<Rightarrow> bool" where
  "title_matches rt title_contains product \<longleftrightarrow>
     (case title_contains of
        None \<Rightarrow> True
      | Some q \<Rightarrow> q = [] \<or> sublist (py_lower rt q) (py_lower rt (title product)))"

definition price_at_least :: "'f pyrt \<Rightarrow> 'f option \<Rightarrow> Product \<Rightarrow> bool" where
  "price_at_least rt min_price product \<longleftrightarrow>
     (case min_price of
        None \<Rightarrow> True
      | Some lo \<Rightarrow>
          (case py_float rt (price product) of None \<Rightarrow> False | Some v \<Rightarrow> \<not> py_lt rt v lo))"

definition price_at_most :: "'f pyrt \<Rightarrow> 'f option \<Rightarrow> Product \<Rightarrow> bool" where
  "price_at_most rt max_price product \<longleftrightarrow>
     (case max_price of
        None \<Rightarrow> True
      | Some hi \<Rightarrow>
          (case py_float rt (price product) of None \<Rightarrow> False | Some v \<Rightarrow> \<not> py_lt rt hi v))"

definition price_parses :: "'f pyrt \<Rightarrow> Product \<Rightarrow> bool" where
  "price_parses rt product \<longleftrightarrow> py_float rt (price product) \<noteq> None"

section \<open>Conditions on a product container\<close>

text \<open>
  A container lacks all price sources when it has no offscreen price span, no pair of
  whole and fraction sub-elements, and no text the price pattern matches. A container
  without a price container has none of the sub-elements.
\<close>

definition lacks_price_sources :: "'f pyrt \<Rightarrow> element \<Rightarrow> bool" where
  "lacks_price_sources rt e \<longleftrightarrow>
     (case find_element e SPAN_A_PRICE of
        Inl _ \<Rightarrow> True
      | Inr price_container \<Rightarrow>
          (case find_element price_container A_OFFSCREEN of Inl _ \<Rightarrow> True | Inr _ \<Rightarrow> False) \<and>
          (case find_element price_container A_PRICE_WHOLE of
             Inl _ \<Rightarrow> True
           | Inr _ \<Rightarrow>
               (case find_element price_container A_PRICE_FRACTION of
                  Inl _ \<Rightarrow> True
                | Inr _ \<Rightarrow> False))) \<and>
     re_search rt (text_of e) = None"

text \<open>
  A lookup of the \<^verbatim>\<open>try\<close> body raises \<^verbatim>\<open>NoSuchElementException\<close> when the heading or
  the link is found by neither of its two locators.
\<close>

definition lookup_raises :: "element \<Rightarrow> bool" where
  "lookup_raises e \<longleftrightarrow>
     (case find_element e H2_SPAN of
        Inr _ \<Rightarrow> False
      | Inl _ \<Rightarrow> (case find_element e H2 of Inr _ \<Rightarrow> False | Inl _ \<Rightarrow> True)) \<or>
     (case find_element e A_LINK_NORMAL_S_LINK_STYLE of
        Inr _ \<Rightarrow> False
      | Inl _ \<Rightarrow> (case find_element e A_LINK_NORMAL of Inr _ \<Rightarrow> False | Inl _ \<Rightarrow> True))"

section \<open>An instance for evaluation\<close>

text \<open>
  To evaluate the model on concrete inputs the parameters need values. \<open>ascii_rt\<close> is the
  Python runtime restricted to what the examples of this theory use: ASCII digits for
  \<^verbatim>\<open>\d\<close>, \<^verbatim>\<open>str.lower()\<close> on ASCII letters, and \<^verbatim>\<open>float()\<close> on plain decimal literals
  (optional sign, digits, optional point and digits, with surrounding white space),
  whose value is kept exact as a rational. Literals with an exponent, underscores,
  \<^verbatim>\<open>inf\<close>, \<^verbatim>\<open>nan\<close> or non-ASCII digits are outside it and are used in no example. No
  theorem about the program depends on \<open>ascii_rt\<close>: it only instantiates them.
\<close>

definition ascii_digit :: "nat \<Rightarrow> bool" where
  "ascii_digit c \<longleftrightarrow> 48 \<le> c \<and> c \<le> 57"

definition ascii_lower :: "pystr \<Rightarrow> pystr" where
  "ascii_lower s = map (\<lambda>c. if 65 \<le> c \<and> c \<le> 90 then c + 32 else c) s"

definition digits_value :: "pystr \<Rightarrow> nat" where
  "digits_value ds = foldl (\<lambda>acc d. 10 * acc + (d - 48)) 0 ds"

definition decimal_float :: "pystr \<Rightarrow> rat option" where
  "decimal_float s =
     (let t = strip s;
          negative = (case t of [] \<Rightarrow> False | c # _ \<Rightarrow> c = 45);
          u = (case t of [] \<Rightarrow> [] | c # r \<Rightarrow> if c = 45 \<or> c = 43 then r else t);
          int_part = takeWhile ascii_digit u;
          rest = dropWhile ascii_digit u;
          frac_part = (case rest of [] \<Rightarrow> Some [] | c # r \<Rightarrow> if c = 46 then Some r else None)
      in (case frac_part of
            None \<Rightarrow> None
          | Some fr \<Rightarrow>
              if \<not> list_all ascii_digit fr \<or> (int_part = [] \<and> fr = []) then None
              else
                Some ((if negative then - 1 else 1) *
                      (of_nat (digits_value int_part) +
                       of_nat (digits_value fr) / 10 ^ length fr))))"

definition ascii_rt :: "rat pyrt" where
  "ascii_rt =
     \<lparr>py_isdecimal = ascii_digit, py_lower = ascii_lower, py_float = decimal_float,
      py_lt = (<)\<rparr>"

text \<open>
  A browser over a fixed list of result pages: the driver state is the index of the
  loaded page, and the next-page link is enabled on every page but the last.
  \<open>endless_browser\<close> shows the same page for ever and always has an enabled next-page
  link.
\<close>

definition pages_browser :: "element list list \<Rightarrow> nat browser" where
  "pages_browser pages =
     \<lparr>get = (\<lambda>_. 0),
      find_elements = (\<lambda>i. if i < length pages then pages ! i else []),
      next_button = (\<lambda>i. if Suc i < length pages then Some (Suc i) else None)\<rparr>"

definition endless_browser :: "element list \<Rightarrow> nat browser" where
  "endless_browser page_elements =
     \<lparr>get = (\<lambda>_. 0), find_elements = (\<lambda>_. page_elements),
      next_button = (\<lambda>i. Some (Suc i))\<rparr>"

text \<open>
  Product containers in the shape of the listings of tests/test_static_page.py: a
  heading, a link, and the given price markup and visible text.
\<close>

definition leaf :: "string \<Rightarrow> element" where
  "leaf s = Element (ustr s) [] []"

definition card :: "string \<Rightarrow> string \<Rightarrow> (selector \<times> element) list \<Rightarrow> string \<Rightarrow> element" where
  "card heading href price_markup visible =
     Element (ustr visible) []
       ([(H2_SPAN, leaf heading), (H2, leaf heading),
         (A_LINK_NORMAL_S_LINK_STYLE, Element (ustr heading) [(''href'', ustr href)] []),
         (A_LINK_NORMAL, Element (ustr heading) [(''href'', ustr href)] [])] @
        price_markup)"

definition full_price :: "string \<Rightarrow> string \<Rightarrow> string \<Rightarrow> (selector \<times> element) list" where
  "full_price symbol whole fraction =
     [(SPAN_A_PRICE,
       Element (ustr (symbol @ whole @ ''.'' @ fraction)) []
         [(A_OFFSCREEN, leaf (symbol @ whole @ ''.'' @ fraction)),
          (A_PRICE_SYMBOL, leaf symbol), (A_PRICE_WHOLE, leaf whole),
          (A_PRICE_FRACTION, leaf fraction)])]"

definition sample1 :: element where
  "sample1 = card ''Sample Product 1'' ''https://www.example.com/product-1''
     (full_price ''$'' ''19'' ''99'') ''Sample Product 1 $19.99''"

definition sample2 :: element where
  "sample2 = card ''Sample Product 2'' ''https://www.example.com/product-2''
     (full_price ''$'' ''42'' ''50'') ''Sample Product 2 $42.50''"

definition sample3 :: element where
  "sample3 = card ''Sample Product 3'' ''https://www.example.com/product-3''
     [] ''Sample Product 3''"

definition product1 :: Product where
  "product1 =
     \<lparr>title = ustr ''Sample Product 1'', url = ustr ''https://www.example.com/product-1'',
      price = ustr ''19.99'', currency = ustr ''$'', page = 1, position = 1\<rparr>"

definition product2 :: Product where
  "product2 =
     \<lparr>title = ustr ''Sample Product 2'', url = ustr ''https://www.example.com/product-2'',
      price = ustr ''42.50'', currency = ustr ''$'', page = 1, position = 2\<rparr>"

text \<open>
  Three more containers. \<open>sample4\<close> has a price container holding the whole part only,
  and a visible text with a price in it. \<open>sample5\<close> has the whole and fraction parts
  but no currency symbol. \<open>sample6\<close> has an offscreen string and, beside it, whole and
  fraction parts that spell another price.
\<close>

definition whole_only :: element where
  "whole_only = Element (ustr ''19'') [] [(A_PRICE_WHOLE, leaf ''19'')]"

definition no_symbol :: element where
  "no_symbol =
     Element (ustr ''1,299.00'') []
       [(A_PRICE_WHOLE, leaf ''1,299''), (A_PRICE_FRACTION, leaf ''00'')]"

definition both_prices :: element where
  "both_prices =
     Element (ustr ''$25.00'') []
       [(A_OFFSCREEN, leaf ''$1,219.99''), (A_PRICE_SYMBOL, leaf ''$''),
        (A_PRICE_WHOLE, leaf ''25''), (A_PRICE_FRACTION, leaf ''00'')]"

definition sample4 :: element where
  "sample4 = card ''Sample Product 4'' ''https://www.example.com/product-4''
     [(SPAN_A_PRICE, whole_only)] ''Sample Product 4 $19.99''"

definition sample5 :: element where
  "sample5 = card ''Sample Product 5'' ''https://www.example.com/product-5''
     [(SPAN_A_PRICE, no_symbol)] ''Sample Product 5 $ 1,299.00''"

definition sample6 :: element where
  "sample6 = card ''Sample Product 6'' ''https://www.example.com/product-6''
     [(SPAN_A_PRICE, both_prices)] ''Sample Product 6 $25.00''"

text \<open>
  A record as the page scraper builds it from an offscreen price that shows a range,
  \<^verbatim>\<open>$19.99 - $24.99\<close>: the first character is the currency, the rest the price.
\<close>

definition range_product :: Product where
  "range_product =
     \<lparr>title = ustr ''Sample Product 1'', url = ustr ''https://www.example.com/product-1'',
      price = ustr ''19.99 - $24.99'', currency = ustr ''$'', page = 1, position = 1\<rparr>"

section \<open>Evaluation of the instance\<close>

lemmas str_eval = ustr_def strip_def lstrip_def rstrip_def isspace_def remove_commas_def

lemma float_1999: "decimal_float (ustr ''19.99'') = Some (1999 / 100)"
  by (simp add: decimal_float_def str_eval ascii_digit_def digits_value_def Let_def)

lemma float_4250: "decimal_float (ustr ''42.50'') = Some (85 / 2)"
  by (simp add: decimal_float_def str_eval ascii_digit_def digits_value_def Let_def)

lemma float_range: "decimal_float (ustr ''19.99 - $24.99'') = None"
  by (simp add: decimal_float_def str_eval ascii_digit_def digits_value_def Let_def)

lemma lower_query: "ascii_lower (ustr ''product 1'') = ustr ''product 1''"
  by (simp add: ascii_lower_def ustr_def)

lemma lower_title1: "ascii_lower (ustr ''Sample Product 1'') = ustr ''sample product 1''"
  by (simp add: ascii_lower_def ustr_def)

lemma lower_title2: "ascii_lower (ustr ''Sample Product 2'') = ustr ''sample product 2''"
  by (simp add: ascii_lower_def ustr_def)

lemma query_in_title1: "sublist (ustr ''product 1'') (ustr ''sample product 1'')"
  by (simp add: ustr_def sublist_Cons_right)

lemma query_not_in_title2: "\<not> sublist (ustr ''product 1'') (ustr ''sample product 2'')"
  by (simp add: ustr_def sublist_Cons_right)

lemma query_nonempty: "ustr ''product 1'' \<noteq> []"
  by (simp add: ustr_def)

lemmas filter_eval =
  apply_filters_def falsy_def filter_step_def ascii_rt_def product1_def product2_def
  range_product_def lower_query lower_title1 lower_title2 query_in_title1
  query_not_in_title2 query_nonempty float_1999 float_4250 float_range

lemma filter_by_title:
  "apply_filters ascii_rt [product1, product2] None None (Some (ustr ''product 1'')) =
     [product1]"
  by (simp add: filter_eval)

lemma filter_by_min_price:
  "apply_filters ascii_rt [product1, product2] (Some 20) None None = [product2]"
  by (simp add: filter_eval)

lemma filter_by_both:
  "apply_filters ascii_rt [product1, product2] (Some 20) None (Some (ustr ''product 1'')) = []"
  by (simp add: filter_eval)


lemmas dom_eval = find_element_def get_attribute_def card_def leaf_def full_price_def

lemma parse_sample1: "parse_price_block rt sample1 = Some (ustr ''19.99'', ustr ''$'')"
  by (simp add: parse_price_block_def sample1_def dom_eval str_eval)

lemma parse_sample2: "parse_price_block rt sample2 = Some (ustr ''42.50'', ustr ''$'')"
  by (simp add: parse_price_block_def sample2_def dom_eval str_eval)

lemma parse_sample3: "parse_price_block rt sample3 = None"
  by (simp add: parse_price_block_def sample3_def dom_eval)

lemma find_price_sample4: "find_element sample4 SPAN_A_PRICE = Inr whole_only"
  by (simp add: sample4_def dom_eval)

lemma find_price_sample5: "find_element sample5 SPAN_A_PRICE = Inr no_symbol"
  by (simp add: sample5_def dom_eval)

lemma find_price_sample6: "find_element sample6 SPAN_A_PRICE = Inr both_prices"
  by (simp add: sample6_def dom_eval)

lemma parse_sample4: "parse_price_block rt sample4 = None"
  by (simp add: parse_price_block_def find_price_sample4) (simp add: whole_only_def dom_eval)

lemmas re_eval = match_here_def match_number_def match_fraction_def is_glyph_def
  ascii_rt_def ascii_digit_def

lemma search_sample4:
  "re_search ascii_rt (text_of sample4) = Some (36, ustr ''19.99'')"
  by (simp add: sample4_def card_def str_eval re_eval)

lemma search_sample5:
  "re_search ascii_rt (text_of sample5) = Some (36, ustr ''1,299.00'')"
  by (simp add: sample5_def card_def str_eval re_eval)

lemma search_sample3: "re_search ascii_rt (text_of sample3) = None"
  by (simp add: sample3_def card_def str_eval re_eval)

lemma parse_sample5:
  "parse_price_block ascii_rt sample5 = Some (ustr ''1299.00'', ustr ''$'')"
  by (simp add: parse_price_block_def find_price_sample5)
     (simp add: no_symbol_def dom_eval str_eval search_sample5)

lemma parse_sample6:
  "parse_price_block rt sample6 = Some (ustr ''1219.99'', ustr ''$'')"
  by (simp add: parse_price_block_def find_price_sample6)
     (simp add: both_prices_def dom_eval str_eval)

lemma scrape_step_card:
  assumes "e = card heading href price_markup visible"
    and "strip (ustr heading) = t" and "t \<noteq> []" and "ustr href = u" and "u \<noteq> []"
    and "parse_price_block rt e = Some (pr, cur)" and "pr \<noteq> []"
  shows "scrape_step rt pg (i, e) (ps, k) =
     (ps @ [\<lparr>title = t, url = u, price = pr, currency = cur, page = pg, position = i\<rparr>], k)"
proof -
  have "find_element e H2_SPAN = Inr (leaf heading)"
    and "find_element e A_LINK_NORMAL_S_LINK_STYLE =
      Inr (Element (ustr heading) [(''href'', ustr href)] [])"
    by (simp_all add: assms(1) find_element_def card_def)
  then show ?thesis
    using assms(2-7) by (simp add: get_attribute_def leaf_def)
qed

lemma scrape_step_card_no_price:
  assumes "e = card heading href price_markup visible"
    and "parse_price_block rt e = None"
  shows "scrape_step rt pg (i, e) (ps, k) = (ps, k)"
proof -
  have "find_element e H2_SPAN = Inr (leaf heading)"
    and "find_element e A_LINK_NORMAL_S_LINK_STYLE =
      Inr (Element (ustr heading) [(''href'', ustr href)] [])"
    by (simp_all add: assms(1) find_element_def card_def)
  then show ?thesis
    using assms(2) by (simp add: get_attribute_def leaf_def Let_def split: option.splits)
qed

lemma step_sample1:
  "scrape_step rt pg (i, sample1) (ps, k) =
     (ps @ [\<lparr>title = ustr ''Sample Product 1'', url = ustr ''https://www.example.com/product-1'',
            price = ustr ''19.99'', currency = ustr ''$'', page = pg, position = i\<rparr>], k)"
  by (rule scrape_step_card [OF sample1_def _ _ _ _ parse_sample1]) (simp_all add: str_eval)

lemma step_sample2:
  "scrape_step rt pg (i, sample2) (ps, k) =
     (ps @ [\<lparr>title = ustr ''Sample Product 2'', url = ustr ''https://www.example.com/product-2'',
            price = ustr ''42.50'', currency = ustr ''$'', page = pg, position = i\<rparr>], k)"
  by (rule scrape_step_card [OF sample2_def _ _ _ _ parse_sample2]) (simp_all add: str_eval)

lemma step_sample3: "scrape_step rt pg (i, sample3) (ps, k) = (ps, k)"
  by (rule scrape_step_card_no_price [OF sample3_def parse_sample3])

lemma scrape_samples:
  "scrape_products_on_current_page rt [sample1, sample2, sample3] pg =
     ([product1\<lparr>page := pg\<rparr>, product2\<lparr>page := pg\<rparr>], 0)"
  by (simp add: scrape_products_on_current_page_def step_sample1 step_sample2 step_sample3
      product1_def product2_def del: scrape_step.simps)

lemma scrape_samples_page1:
  "scrape_products_on_current_page rt [sample1, sample2, sample3] 1 = ([product1, product2], 0)"
  by (simp add: scrape_samples) (simp add: product1_def product2_def)

section \<open>Filter engine: what the loop computes\<close>

lemma filter_step_keeps:
  "filter_step rt query lo hi p filtered =
     (if keeps rt query lo hi p then filtered @ [p] else filtered)"
  by (simp add: filter_step_def keeps_def split: option.splits)

lemma fold_filter_step:
  "fold (filter_step rt query lo hi) products filtered =
     filtered @ filter (keeps rt query lo hi) products"
  by (induction products arbitrary: filtered) (simp_all add: filter_step_keeps)

lemma apply_filters_filter:
  "apply_filters rt products lo hi tc =
     (if lo = None \<and> hi = None \<and> falsy tc then products
      else filter (keeps rt (query_of rt tc) lo hi) products)"
  by (simp add: apply_filters_def fold_filter_step query_of_def)

lemma keeps_spec:
  "keeps rt (query_of rt tc) lo hi p \<longleftrightarrow>
     title_matches rt tc p \<and> price_parses rt p \<and> price_at_least rt lo p \<and>
     price_at_most rt hi p"
  by (auto simp: keeps_def query_of_def title_matches_def price_parses_def price_at_least_def
      price_at_most_def split: option.splits)

lemma keeps_spec_fun:
  "keeps rt (query_of rt tc) lo hi =
     (\<lambda>p. title_matches rt tc p \<and> price_parses rt p \<and> price_at_least rt lo p \<and>
          price_at_most rt hi p)"
  by (rule ext) (rule keeps_spec)

lemma count_list_filter_le: "count_list (filter P xs) x \<le> count_list xs x"
  by (induction xs) auto

section \<open>Claims about the filter engine\<close>

text \<open>
  C8. Applying the filter engine with no predicate supplied (\<open>min_price\<close>, \<open>max_price\<close>
  and \<open>title_contains\<close> all absent) returns the input list itself, element for element;
  the same holds when \<open>title_contains\<close> is the empty string. The input is a value of the
  model, which nothing can mutate; the source takes this branch before it creates
  \<open>filtered\<close> and writes to no list.
\<close>

theorem apply_filters_no_predicates:
  "apply_filters rt products None None None = products \<and>
   apply_filters rt products None None (Some []) = products"
  by (simp add: apply_filters_def falsy_def)

theorem apply_filters_no_predicates_witness:
  "apply_filters ascii_rt [product1, product2] None None None = [product1, product2]"
  using apply_filters_no_predicates [of ascii_rt "[product1, product2]"] by simp

text \<open>
  C10. For every input list and every combination of predicates the output of the
  filter engine is a subsequence of its input: the surviving records keep their
  relative order, every output record is a record of the input, and no record occurs
  more often in the output than in the input.
\<close>

theorem apply_filters_subseq:
  "subseq (apply_filters rt products lo hi tc) products \<and>
   set (apply_filters rt products lo hi tc) \<subseteq> set products \<and>
   (\<forall>p. count_list (apply_filters rt products lo hi tc) p \<le> count_list products p)"
  by (auto simp: apply_filters_filter count_list_filter_le)

theorem apply_filters_subseq_witness:
  "subseq [product2] [product1, product2] \<and> set [product2] \<subseteq> set [product1, product2]"
  using apply_filters_subseq [of ascii_rt "[product1, product2]" "Some 20" None None]
  by (simp add: filter_by_min_price)

text \<open>
  C7. Filtering with both \<open>min_price\<close> and \<open>title_contains\<close> supplied yields the
  intersection of filtering with \<open>min_price\<close> alone and filtering with \<open>title_contains\<close>
  alone: as lists, the records of the first result that occur in the second, and as
  sets, the intersection of the two results.
\<close>

theorem apply_filters_and_composition:
  "apply_filters rt products (Some lo) None (Some q) =
     filter (\<lambda>p. p \<in> set (apply_filters rt products None None (Some q)))
       (apply_filters rt products (Some lo) None None) \<and>
   set (apply_filters rt products (Some lo) None (Some q)) =
     set (apply_filters rt products (Some lo) None None) \<inter>
     set (apply_filters rt products None None (Some q))"
proof -
  have list: "apply_filters rt products (Some lo) None (Some q) =
     filter (\<lambda>p. p \<in> set (apply_filters rt products None None (Some q)))
       (apply_filters rt products (Some lo) None None)"
    by (auto simp: apply_filters_filter keeps_spec keeps_spec_fun falsy_def title_matches_def
        price_at_most_def price_at_least_def price_parses_def
        intro!: filter_cong split: option.splits)
  have "set (filter (\<lambda>p. p \<in> set (apply_filters rt products None None (Some q)))
       (apply_filters rt products (Some lo) None None)) =
     set (apply_filters rt products (Some lo) None None) \<inter>
     set (apply_filters rt products None None (Some q))"
    by auto
  with list show ?thesis
    by simp
qed

theorem apply_filters_and_composition_witness:
  "[] = filter (\<lambda>p. p \<in> set [product1]) [product2] \<and>
   set ([] :: Product list) = set [product2] \<inter> set [product1]"
  using apply_filters_and_composition
    [of ascii_rt "[product1, product2]" 20 "ustr ''product 1''"]
  by (simp only: filter_by_both filter_by_title filter_by_min_price)




section \<open>Field extractor and page scraper: what they compute\<close>

lemma match_here_glyph:
  assumes "match_here rt cs = Some (g, n)"
  shows "is_glyph g"
proof (cases cs)
  case Nil
  with assms show ?thesis by (simp add: match_here_def)
next
  case (Cons a r)
  show ?thesis
  proof (cases "is_glyph a")
    case True
    with assms Cons have "g = a"
      by (auto simp: match_here_def split: option.splits)
    with True show ?thesis by simp
  next
    case False
    with assms Cons show ?thesis by (simp add: match_here_def)
  qed
qed

lemma re_search_glyph: "re_search rt t = Some (g, n) \<Longrightarrow> is_glyph g"
proof (induction t)
  case Nil
  then show ?case by simp
next
  case (Cons c cs)
  show ?case
  proof (cases "match_here rt (c # cs)")
    case None
    with Cons show ?thesis by simp
  next
    case (Some m)
    with Cons.prems have "match_here rt (c # cs) = Some (g, n)" by simp
    then show ?thesis by (rule match_here_glyph)
  qed
qed

text \<open>
  The search returns the match at the leftmost position where the pattern matches.
\<close>

lemma re_search_leftmost:
  "re_search rt t = Some m \<Longrightarrow>
   \<exists>k \<le> length t. match_here rt (drop k t) = Some m \<and>
     (\<forall>j < k. match_here rt (drop j t) = None)"
proof (induction t)
  case Nil
  then show ?case by simp
next
  case (Cons c cs)
  show ?case
  proof (cases "match_here rt (c # cs)")
    case (Some m')
    with Cons.prems have "match_here rt (drop 0 (c # cs)) = Some m" by simp
    then show ?thesis by blast
  next
    case None
    with Cons.prems have "re_search rt cs = Some m" by simp
    then obtain k where k: "k \<le> length cs" "match_here rt (drop k cs) = Some m"
      "\<forall>j < k. match_here rt (drop j cs) = None"
      using Cons.IH by blast
    have "match_here rt (drop j (c # cs)) = None" if "j < Suc k" for j
      using that None k(3) by (cases j) auto
    with k(1,2) have "Suc k \<le> length (c # cs) \<and>
        match_here rt (drop (Suc k) (c # cs)) = Some m \<and>
        (\<forall>j < Suc k. match_here rt (drop j (c # cs)) = None)"
      by simp
    then show ?thesis by blast
  qed
qed

lemma parse_price_block_currency:
  "parse_price_block rt e = Some (pr, cur) \<Longrightarrow> cur \<noteq> []"
  unfolding parse_price_block_def Let_def
  by (simp split: sum.splits list.splits option.splits if_splits prod.splits) auto

lemma scrape_step_currency:
  assumes "\<forall>p \<in> set (fst st). currency p \<noteq> []"
  shows "\<forall>p \<in> set (fst (scrape_step rt pg ie st)). currency p \<noteq> []"
proof -
  obtain i e where ie: "ie = (i, e)" by (cases ie)
  obtain ps k where st: "st = (ps, k)" by (cases st)
  have new: "cur \<noteq> []" if "parse_price_block rt e = Some (pr, cur)" for pr cur
    using that by (rule parse_price_block_currency)
  show ?thesis
    using assms new unfolding ie st
    by (simp add: Let_def split: sum.splits option.splits prod.splits)
qed

lemma fold_scrape_step_currency:
  "\<forall>p \<in> set (fst st). currency p \<noteq> [] \<Longrightarrow>
   \<forall>p \<in> set (fst (fold (scrape_step rt pg) ies st)). currency p \<noteq> []"
proof (induction ies arbitrary: st)
  case Nil
  then show ?case by simp
next
  case (Cons ie ies)
  have "\<forall>p \<in> set (fst (scrape_step rt pg ie st)). currency p \<noteq> []"
    using Cons.prems by (rule scrape_step_currency)
  then have "\<forall>p \<in> set (fst (fold (scrape_step rt pg) ies (scrape_step rt pg ie st))).
      currency p \<noteq> []"
    by (rule Cons.IH)
  then show ?case by simp
qed

lemma lacks_price_sources_parse:
  "lacks_price_sources rt e \<Longrightarrow> parse_price_block rt e = None"
  by (auto simp: lacks_price_sources_def parse_price_block_def split: sum.splits)

lemma scrape_step_no_price:
  assumes "(case find_element element H2_SPAN of
              Inr t \<Rightarrow> Inr t
            | Inl _ \<Rightarrow> find_element element H2) = Inr title_element"
    and "(case find_element element A_LINK_NORMAL_S_LINK_STYLE of
              Inr l \<Rightarrow> Inr l
            | Inl _ \<Rightarrow> find_element element A_LINK_NORMAL) = Inr link_element"
    and "parse_price_block rt element = None"
  shows "scrape_step rt pg (i, element) (products, skipped) = (products, skipped)"
  using assms by (simp add: Let_def split: option.splits)

text \<open>
  The counter in this model, whose only exception is the \<^verbatim>\<open>NoSuchElementException\<close> of
  a lookup: each pass adds one exactly when the heading or the link lookup raises.
  The source's \<^verbatim>\<open>except Exception\<close> also counts any other exception of the \<^verbatim>\<open>try\<close>
  body, which the model does not have; the lemmas below speak of lookups only.
\<close>

lemma scrape_step_skipped:
  "snd (scrape_step rt pg (i, e) (ps, k)) = (if lookup_raises e then k + 1 else k)"
  by (simp add: lookup_raises_def Let_def split: sum.splits option.splits prod.splits)

lemma fold_scrape_step_skipped:
  "snd (fold (scrape_step rt pg) (enumerate_from i es) st) =
     snd st + length (filter lookup_raises es)"
proof (induction es arbitrary: i st)
  case Nil
  show ?case by simp
next
  case (Cons e es)
  obtain ps k where st: "st = (ps, k)" by (cases st)
  have "snd (scrape_step rt pg (i, e) st) = (if lookup_raises e then k + 1 else k)"
    unfolding st by (rule scrape_step_skipped)
  then show ?case
    by (simp add: Cons.IH st del: scrape_step.simps)
qed

lemma skipped_counts_lookup_errors:
  "snd (scrape_products_on_current_page rt product_elements pg) =
     length (filter lookup_raises product_elements)"
  by (simp add: scrape_products_on_current_page_def fold_scrape_step_skipped)

section \<open>Claims about the field extractor and the page scraper\<close>

text \<open>
  C9. Every record the page scraper emits has a non-empty currency string: whenever
  the price extractor returns a price, the currency it returns with it is not the
  empty string (the first character of a non-empty offscreen string, a symbol text
  tested to be non-empty, or the glyph the pattern matched), and so no record of the
  page's result has an empty currency.
\<close>

theorem scraped_currency_nonempty:
  "(\<forall>pr cur. parse_price_block rt e = Some (pr, cur) \<longrightarrow> cur \<noteq> []) \<and>
   (\<forall>p \<in> set (fst (scrape_products_on_current_page rt product_elements pg)).
      currency p \<noteq> [])"
proof -
  have "\<forall>p \<in> set (fst (([], 0) :: Product list \<times> nat)). currency p \<noteq> []"
    by simp
  then have "\<forall>p \<in> set (fst (scrape_products_on_current_page rt product_elements pg)).
      currency p \<noteq> []"
    unfolding scrape_products_on_current_page_def by (rule fold_scrape_step_currency)
  then show ?thesis
    using parse_price_block_currency by blast
qed

theorem scraped_currency_nonempty_witness:
  "parse_price_block ascii_rt sample1 = Some (ustr ''19.99'', ustr ''$'') \<and>
   ustr ''$'' \<noteq> [] \<and> currency product1 \<noteq> [] \<and> currency product2 \<noteq> []"
proof -
  have "\<forall>p \<in> set (fst (scrape_products_on_current_page ascii_rt [sample1, sample2, sample3] 1)).
      currency p \<noteq> []"
    and "parse_price_block ascii_rt sample1 = Some (ustr ''19.99'', ustr ''$'') \<longrightarrow>
      ustr ''$'' \<noteq> []"
    using scraped_currency_nonempty [of ascii_rt sample1 "[sample1, sample2, sample3]" 1]
    by blast+
  then show ?thesis
    by (simp add: scrape_samples_page1 parse_sample1)
qed

text \<open>
  C5. For a container whose price container exposes an offscreen string that is not
  empty once trimmed (the source reads it as \<^verbatim>\<open>.text.strip()\<close>), the extractor returns
  the price derived from that string: its first character as the currency, and the
  remainder, trimmed and with the commas removed, as the number. This holds whatever
  whole, fraction and symbol sub-elements the container also has, so the price they
  spell is never the one returned.
\<close>

theorem offscreen_price_wins:
  assumes "find_element product_element SPAN_A_PRICE = Inr price_container"
    and "find_element price_container A_OFFSCREEN = Inr offscreen_el"
    and "strip (text_of offscreen_el) \<noteq> []"
  shows "parse_price_block rt product_element =
     Some (remove_commas (strip (tl (strip (text_of offscreen_el)))),
           [hd (strip (text_of offscreen_el))])"
proof -
  obtain c rest where "strip (text_of offscreen_el) = c # rest"
    using assms(3) by (cases "strip (text_of offscreen_el)") auto
  then show ?thesis
    using assms(1,2) by (simp add: parse_price_block_def)
qed

text \<open>
  The theorem at \<open>sample6\<close>, whose offscreen string is \<^verbatim>\<open>$1,219.99\<close> and whose whole and
  fraction parts spell 25.00.
\<close>

theorem offscreen_price_wins_witness:
  "find_element both_prices A_PRICE_WHOLE = Inr (leaf ''25'') \<and>
   find_element both_prices A_PRICE_FRACTION = Inr (leaf ''00'') \<and>
   parse_price_block ascii_rt sample6 = Some (ustr ''1219.99'', ustr ''$'')"
proof -
  have off: "find_element both_prices A_OFFSCREEN = Inr (leaf ''$1,219.99'')"
    by (simp add: both_prices_def find_element_def)
  have ne: "strip (text_of (leaf ''$1,219.99'')) \<noteq> []"
    by (simp add: leaf_def str_eval)
  have "parse_price_block ascii_rt sample6 =
     Some (remove_commas (strip (tl (strip (text_of (leaf ''$1,219.99''))))),
           [hd (strip (text_of (leaf ''$1,219.99'')))])"
    using find_price_sample6 off ne by (rule offscreen_price_wins)
  then show ?thesis
    by (simp add: leaf_def str_eval both_prices_def find_element_def)
qed

text \<open>
  C2, as the code has it. Let the price container be present and its offscreen string
  absent or empty. When the whole or the fraction sub-element is missing, the
  extractor returns no price and does not scan the visible text. The scan is the
  final fallback only when both sub-elements are present and the currency symbol is
  absent or empty: then the result is the first match's glyph and its number with
  the commas removed, or no price when nothing matches.
\<close>

theorem regex_fallback:
  assumes "find_element product_element SPAN_A_PRICE = Inr price_container"
    and "(case find_element price_container A_OFFSCREEN of
            Inl _ \<Rightarrow> []
          | Inr offscreen_el \<Rightarrow> strip (text_of offscreen_el)) = []"
  shows "((\<exists>x. find_element price_container A_PRICE_WHOLE = Inl x) \<or>
          (\<exists>x. find_element price_container A_PRICE_FRACTION = Inl x) \<longrightarrow>
          parse_price_block rt product_element = None) \<and>
         ((\<exists>w f. find_element price_container A_PRICE_WHOLE = Inr w \<and>
                 find_element price_container A_PRICE_FRACTION = Inr f) \<and>
          (case find_element price_container A_PRICE_SYMBOL of
             Inl _ \<Rightarrow> []
           | Inr symbol_el \<Rightarrow> strip (text_of symbol_el)) = [] \<longrightarrow>
          parse_price_block rt product_element =
            (case re_search rt (text_of product_element) of
               None \<Rightarrow> None
             | Some (currency_char, numeric) \<Rightarrow> Some (remove_commas numeric, [currency_char])))"
  using assms
  by (auto simp: parse_price_block_def Let_def split: sum.splits option.splits)

text \<open>
  The theorem at \<open>sample5\<close> (both parts, no symbol: the scan finds \<^verbatim>\<open>$ 1,299.00\<close>) and at
  \<open>sample4\<close> (no fraction part: no price).
\<close>

theorem regex_fallback_witness:
  "parse_price_block ascii_rt sample5 = Some (ustr ''1299.00'', ustr ''$'') \<and>
   parse_price_block ascii_rt sample4 = None"
proof -
  have off5: "(case find_element no_symbol A_OFFSCREEN of
                 Inl _ \<Rightarrow> []
               | Inr offscreen_el \<Rightarrow> strip (text_of offscreen_el)) = []"
    by (simp add: no_symbol_def find_element_def)
  have pair5: "\<exists>w f. find_element no_symbol A_PRICE_WHOLE = Inr w \<and>
                 find_element no_symbol A_PRICE_FRACTION = Inr f"
    by (simp add: no_symbol_def find_element_def)
  have sym5: "(case find_element no_symbol A_PRICE_SYMBOL of
                 Inl _ \<Rightarrow> []
               | Inr symbol_el \<Rightarrow> strip (text_of symbol_el)) = []"
    by (simp add: no_symbol_def find_element_def)
  have "parse_price_block ascii_rt sample5 =
     (case re_search ascii_rt (text_of sample5) of
        None \<Rightarrow> None
      | Some (currency_char, numeric) \<Rightarrow> Some (remove_commas numeric, [currency_char]))"
    using regex_fallback [OF find_price_sample5 off5, of ascii_rt] pair5 sym5 by blast
  then have five: "parse_price_block ascii_rt sample5 = Some (ustr ''1299.00'', ustr ''$'')"
    by (simp add: search_sample5 str_eval)
  have off4: "(case find_element whole_only A_OFFSCREEN of
                 Inl _ \<Rightarrow> []
               | Inr offscreen_el \<Rightarrow> strip (text_of offscreen_el)) = []"
    by (simp add: whole_only_def find_element_def)
  have frac4: "\<exists>x. find_element whole_only A_PRICE_FRACTION = Inl x"
    by (simp add: whole_only_def find_element_def)
  have "parse_price_block ascii_rt sample4 = None"
    using regex_fallback [OF find_price_sample4 off4, of ascii_rt] frac4 by blast
  with five show ?thesis by simp
qed

text \<open>
  C2 as stated fails at \<open>sample4\<close>: the price container is present, there is no
  offscreen string and no fraction part, the pattern matches \<^verbatim>\<open>$19.99\<close> in the visible
  text, and the extractor returns no price.
\<close>

theorem regex_fallback_counterexample:
  "find_element sample4 SPAN_A_PRICE = Inr whole_only \<and>
   find_element whole_only A_OFFSCREEN = Inl NoSuchElementException \<and>
   find_element whole_only A_PRICE_FRACTION = Inl NoSuchElementException \<and>
   re_search ascii_rt (text_of sample4) = Some (36, ustr ''19.99'') \<and>
   parse_price_block ascii_rt sample4 = None"
  by (simp add: find_price_sample4 search_sample4 parse_sample4)
     (simp add: whole_only_def find_element_def)

text \<open>
  C1, as the code has it. A container whose title and URL extract successfully but
  which lacks all price sources yields no record and leaves the page's skip counter
  as it is: the \<^verbatim>\<open>continue\<close> after \<^verbatim>\<open>if not price\<close> does not touch
  \<open>skipped_due_to_errors\<close>.
\<close>

theorem missing_price_skipped_silently:
  assumes "(case find_element element H2_SPAN of
              Inr t \<Rightarrow> Inr t
            | Inl _ \<Rightarrow> find_element element H2) = Inr title_element"
    and "(case find_element element A_LINK_NORMAL_S_LINK_STYLE of
              Inr l \<Rightarrow> Inr l
            | Inl _ \<Rightarrow> find_element element A_LINK_NORMAL) = Inr link_element"
    and "strip (text_of title_element) \<noteq> []"
    and "get_attribute link_element ''href'' = Some href" and "href \<noteq> []"
    and "lacks_price_sources rt element"
  shows "scrape_step rt pg (i, element) (products, skipped) = (products, skipped) \<and>
         scrape_products_on_current_page rt [element] pg = ([], 0)"
proof -
  have none: "parse_price_block rt element = None"
    using assms(6) by (rule lacks_price_sources_parse)
  have step: "scrape_step rt pg (j, element) (ps, k) = (ps, k)" for j ps k
    using assms(1,2) none by (rule scrape_step_no_price)
  show ?thesis
    by (simp add: scrape_products_on_current_page_def step del: scrape_step.simps)
qed

text \<open>
  The theorem at \<open>sample3\<close>, after the two priced listings of the page were recorded.
\<close>

theorem missing_price_skipped_silently_witness:
  "lacks_price_sources ascii_rt sample3 \<and>
   scrape_step ascii_rt 1 (3, sample3) ([product1, product2], 0) = ([product1, product2], 0)"
proof -
  have ti: "(case find_element sample3 H2_SPAN of
               Inr t \<Rightarrow> Inr t
             | Inl _ \<Rightarrow> find_element sample3 H2) = Inr (leaf ''Sample Product 3'')"
    by (simp add: sample3_def card_def find_element_def)
  have li: "(case find_element sample3 A_LINK_NORMAL_S_LINK_STYLE of
               Inr l \<Rightarrow> Inr l
             | Inl _ \<Rightarrow> find_element sample3 A_LINK_NORMAL) =
            Inr (Element (ustr ''Sample Product 3'')
                   [(''href'', ustr ''https://www.example.com/product-3'')] [])"
    by (simp add: sample3_def card_def find_element_def)
  have t: "strip (text_of (leaf ''Sample Product 3'')) \<noteq> []"
    by (simp add: leaf_def str_eval)
  have h: "get_attribute (Element (ustr ''Sample Product 3'')
                   [(''href'', ustr ''https://www.example.com/product-3'')] []) ''href'' =
           Some (ustr ''https://www.example.com/product-3'')"
    by (simp add: get_attribute_def)
  have u: "ustr ''https://www.example.com/product-3'' \<noteq> []"
    by (simp add: ustr_def)
  have l: "lacks_price_sources ascii_rt sample3"
    by (simp add: lacks_price_sources_def search_sample3) (simp add: sample3_def dom_eval)
  from missing_price_skipped_silently [OF ti li t h u l, of 1 3 "[product1, product2]" 0] l
  show ?thesis by simp
qed

text \<open>
  C1 as stated fails at \<open>sample3\<close>: its title and URL extract, it lacks all price
  sources, it yields no record, and the skip counter of its page is 0, not 1.
\<close>

theorem missing_price_skipped_silently_counterexample:
  "find_element sample3 H2_SPAN = Inr (leaf ''Sample Product 3'') \<and>
   lacks_price_sources ascii_rt sample3 \<and>
   scrape_products_on_current_page ascii_rt [sample3] 1 = ([], 0) \<and>
   snd (scrape_products_on_current_page ascii_rt [sample3] 1) \<noteq> 1"
proof -
  have "lacks_price_sources ascii_rt sample3"
    by (simp add: lacks_price_sources_def search_sample3) (simp add: sample3_def dom_eval)
  moreover have "find_element sample3 H2_SPAN = Inr (leaf ''Sample Product 3'')"
    by (simp add: sample3_def card_def find_element_def)
  moreover have "scrape_products_on_current_page ascii_rt [sample3] 1 = ([], 0)"
    by (simp add: scrape_products_on_current_page_def step_sample3 del: scrape_step.simps)
  ultimately show ?thesis by simp
qed

section \<open>Aggregation loop: what it computes\<close>

text \<open>A pass goes on only below \<open>max_pages\<close>.\<close>

lemma page_cycle_Next_less:
  "page_cycle rt br max_pages max_products min_price max_price title_contains
     driver all_products current_page = Next d' a' \<Longrightarrow> current_page < max_pages"
  by (auto simp: page_cycle_def Let_def split: option.splits if_splits prod.splits bool.splits)

lemma scrape_loop_Break:
  "page_cycle rt br max_pages max_products lo hi tc driver all_products current_page =
     Break result \<Longrightarrow>
   scrape_loop rt br max_pages max_products lo hi tc driver all_products current_page cycles =
     (result, current_page, Suc cycles)"
  by (subst scrape_loop.simps) simp

lemma scrape_loop_Next:
  "page_cycle rt br max_pages max_products lo hi tc driver all_products current_page =
     Next driver' all_products' \<Longrightarrow>
   scrape_loop rt br max_pages max_products lo hi tc driver all_products current_page cycles =
     scrape_loop rt br max_pages max_products lo hi tc driver' all_products'
       (current_page + 1) (Suc cycles)"
  by (subst scrape_loop.simps) simp

text \<open>
  The final page counter is at most \<open>max_pages\<close> (unless the loop started above it, and
  then it made one pass), and the number of passes is the distance the counter moved,
  plus one.
\<close>

lemma scrape_loop_pages:
  "scrape_loop rt br max_pages max_products lo hi tc driver all_products current_page cycles =
     (result, final_page, final_cycles) \<Longrightarrow>
   int final_cycles = int cycles + (final_page - current_page) + 1 \<and>
   current_page \<le> final_page \<and> (final_page \<le> max_pages \<or> final_page = current_page)"
proof (induction rt br max_pages max_products lo hi tc driver all_products current_page cycles
    rule: scrape_loop.induct)
  case (1 rt br max_pages max_products lo hi tc driver all_products current_page cycles)
  show ?case
  proof (cases "page_cycle rt br max_pages max_products lo hi tc driver all_products
      current_page")
    case (Break res)
    from "1.prems" show ?thesis
      by (simp add: scrape_loop_Break [OF Break])
  next
    case (Next d' a')
    have less: "current_page < max_pages"
      using Next by (rule page_cycle_Next_less)
    have "scrape_loop rt br max_pages max_products lo hi tc d' a' (current_page + 1)
        (Suc cycles) = (result, final_page, final_cycles)"
      using "1.prems" by (simp add: scrape_loop_Next [OF Next])
    then have "int final_cycles = int (Suc cycles) + (final_page - (current_page + 1)) + 1 \<and>
        current_page + 1 \<le> final_page \<and>
        (final_page \<le> max_pages \<or> final_page = current_page + 1)"
      by (rule "1.IH" [OF Next])
    with less show ?thesis by auto
  qed
qed

lemma slice_to_length: "0 \<le> m \<Longrightarrow> length (slice_to xs m) \<le> nat m"
  by (simp add: slice_to_def)

lemma page_cycle_Break_length:
  assumes "0 \<le> m"
    and "page_cycle rt br max_pages (Some m) lo hi tc driver all_products current_page =
      Break result"
  shows "length result \<le> nat m"
proof -
  define acc where "acc = all_products @ apply_filters rt
      (fst (scrape_products_on_current_page rt (find_elements br driver) current_page)) lo hi tc"
  show ?thesis
  proof (cases "m \<le> int (length acc)")
    case True
    with assms(2) have "result = slice_to acc m"
      by (simp add: page_cycle_def acc_def Let_def)
    with assms(1) show ?thesis by (simp add: slice_to_length)
  next
    case False
    with assms(2) have "result = acc"
      by (auto simp: page_cycle_def acc_def Let_def split: if_splits prod.splits bool.splits)
    with False show ?thesis by simp
  qed
qed

lemma scrape_loop_length:
  "0 \<le> m \<Longrightarrow>
   scrape_loop rt br max_pages (Some m) lo hi tc driver all_products current_page cycles =
     (result, final_page, final_cycles) \<Longrightarrow>
   length result \<le> nat m"
proof (induction rt br max_pages "Some m :: int option" lo hi tc driver all_products
    current_page cycles rule: scrape_loop.induct)
  case (1 rt br max_pages lo hi tc driver all_products current_page cycles)
  show ?case
  proof (cases "page_cycle rt br max_pages (Some m) lo hi tc driver all_products current_page")
    case (Break res)
    from "1.prems"(2) have "res = result"
      by (simp add: scrape_loop_Break [OF Break])
    with Break "1.prems"(1) show ?thesis
      by (simp add: page_cycle_Break_length)
  next
    case (Next d' a')
    have "scrape_loop rt br max_pages (Some m) lo hi tc d' a' (current_page + 1)
        (Suc cycles) = (result, final_page, final_cycles)"
      using "1.prems"(2) by (simp add: scrape_loop_Next [OF Next])
    with "1.prems"(1) show ?thesis
      by (rule "1.hyps" [OF Next])
  qed
qed

text \<open>
  The loop on the sample listings, without filters. On the endless browser every pass
  below \<open>max_pages\<close> goes on; on the one-page browser the first pass is the last.
\<close>

lemma page_cycle_endless:
  "page_cycle rt (endless_browser [sample1, sample2, sample3]) max_pages None None None None
     driver all_products current_page =
     (if max_pages \<le> current_page
      then Break (all_products @
                  [product1\<lparr>page := current_page\<rparr>, product2\<lparr>page := current_page\<rparr>])
      else Next (Suc driver)
             (all_products @
              [product1\<lparr>page := current_page\<rparr>, product2\<lparr>page := current_page\<rparr>]))"
  by (simp add: page_cycle_def endless_browser_def scrape_samples apply_filters_def falsy_def
      go_to_next_page_def)

lemma scrape_run_endless:
  "scrape_run rt (endless_browser [sample1, sample2, sample3]) [] 2 None None None None =
     ([product1, product2, product1\<lparr>page := 2\<rparr>, product2\<lparr>page := 2\<rparr>], 2, 2)"
proof -
  have one: "page_cycle rt (endless_browser [sample1, sample2, sample3]) 2 None None None None
      0 [] 1 = Next (Suc 0) [product1, product2]"
    by (simp add: page_cycle_endless) (simp add: product1_def product2_def)
  have two: "page_cycle rt (endless_browser [sample1, sample2, sample3]) 2 None None None None
      (Suc 0) [product1, product2] 2 =
      Break [product1, product2, product1\<lparr>page := 2\<rparr>, product2\<lparr>page := 2\<rparr>]"
    by (simp add: page_cycle_endless)
  have "get (endless_browser [sample1, sample2, sample3]) [] = 0"
    by (simp add: endless_browser_def)
  then show ?thesis
    by (simp add: scrape_run_def scrape_loop_Next [OF one] scrape_loop_Break [OF two])
qed

lemma page_cycle_one_page:
  "page_cycle rt (pages_browser [[sample1, sample2, sample3]]) 1 (Some m) None None None
     0 [] 1 =
     (if m \<le> 2 then Break (slice_to [product1, product2] m) else Break [product1, product2])"
  by (simp add: page_cycle_def pages_browser_def scrape_samples_page1 apply_filters_def
      falsy_def)

lemma scrape_run_one_page:
  "scrape_run rt (pages_browser [[sample1, sample2, sample3]]) [] 1 (Some m) None None None =
     (if m \<le> 2 then slice_to [product1, product2] m else [product1, product2], 1, 1)"
proof -
  have "get (pages_browser [[sample1, sample2, sample3]]) [] = 0"
    by (simp add: pages_browser_def)
  then show ?thesis
    by (simp add: scrape_run_def scrape_loop.simps [of _ _ _ _ _ _ _ _ _ 1 0]
        page_cycle_one_page)
qed

section \<open>Claims about the aggregation loop\<close>

text \<open>
  C3. For \<open>max_pages = N\<close> with \<open>N \<ge> 1\<close> the aggregation loop makes at most \<open>N\<close> page-scrape
  cycles, whatever the browser answers when asked for a next page, and its page
  counter ends at most at \<open>N\<close>. The loop terminates (\<open>scrape_loop\<close> is a total function,
  by the measure \<open>max_pages - current_page\<close>): each pass either stops with the result,
  or goes on with the page counter increased by one and still at most \<open>max_pages\<close>.
\<close>

theorem aggregation_loop_bound:
  assumes "1 \<le> max_pages"
  shows "snd (snd (scrape_run rt br url_arg max_pages max_products lo hi tc)) \<le> nat max_pages \<and>
     fst (snd (scrape_run rt br url_arg max_pages max_products lo hi tc)) \<le> max_pages \<and>
     (\<forall>driver all_products current_page cycles.
        (\<exists>result.
           page_cycle rt br max_pages max_products lo hi tc driver all_products current_page =
             Break result \<and>
           scrape_loop rt br max_pages max_products lo hi tc driver all_products current_page
             cycles = (result, current_page, Suc cycles)) \<or>
        (\<exists>driver' all_products'.
           page_cycle rt br max_pages max_products lo hi tc driver all_products current_page =
             Next driver' all_products' \<and>
           current_page < current_page + 1 \<and> current_page + 1 \<le> max_pages \<and>
           scrape_loop rt br max_pages max_products lo hi tc driver all_products current_page
             cycles =
           scrape_loop rt br max_pages max_products lo hi tc driver' all_products'
             (current_page + 1) (Suc cycles)))"
proof -
  obtain result final_page final_cycles where run:
    "scrape_run rt br url_arg max_pages max_products lo hi tc =
       (result, final_page, final_cycles)"
    by (cases "scrape_run rt br url_arg max_pages max_products lo hi tc") auto
  then have "scrape_loop rt br max_pages max_products lo hi tc (get br url_arg) [] 1 0 =
      (result, final_page, final_cycles)"
    by (simp add: scrape_run_def)
  then have "int final_cycles = int 0 + (final_page - 1) + 1 \<and> 1 \<le> final_page \<and>
      (final_page \<le> max_pages \<or> final_page = 1)"
    by (rule scrape_loop_pages)
  with assms have bound: "final_cycles \<le> nat max_pages \<and> final_page \<le> max_pages"
    by auto
  have step: "(\<exists>result.
           page_cycle rt br max_pages max_products lo hi tc driver all_products current_page =
             Break result \<and>
           scrape_loop rt br max_pages max_products lo hi tc driver all_products current_page
             cycles = (result, current_page, Suc cycles)) \<or>
        (\<exists>driver' all_products'.
           page_cycle rt br max_pages max_products lo hi tc driver all_products current_page =
             Next driver' all_products' \<and>
           current_page < current_page + 1 \<and> current_page + 1 \<le> max_pages \<and>
           scrape_loop rt br max_pages max_products lo hi tc driver all_products current_page
             cycles =
           scrape_loop rt br max_pages max_products lo hi tc driver' all_products'
             (current_page + 1) (Suc cycles))"
    for driver all_products current_page cycles
  proof (cases "page_cycle rt br max_pages max_products lo hi tc driver all_products
      current_page")
    case (Break res)
    then show ?thesis
      using scrape_loop_Break [OF Break, of cycles] by simp
  next
    case (Next d' a')
    have "current_page < max_pages"
      using Next by (rule page_cycle_Next_less)
    then show ?thesis
      using Next scrape_loop_Next [OF Next, of cycles] by simp
  qed
  from bound step show ?thesis
    by (simp add: run)
qed

text \<open>
  The theorem at \<open>max_pages = 2\<close> on the browser that always has a next page: two cycles.
\<close>

theorem aggregation_loop_bound_witness:
  "(1 :: int) \<le> 2 \<and>
   snd (snd (scrape_run ascii_rt (endless_browser [sample1, sample2, sample3]) [] 2
               None None None None)) \<le> nat 2 \<and>
   snd (snd (scrape_run ascii_rt (endless_browser [sample1, sample2, sample3]) [] 2
               None None None None)) = 2"
proof -
  have le: "(1 :: int) \<le> 2" by simp
  have "snd (snd (scrape_run ascii_rt (endless_browser [sample1, sample2, sample3]) [] 2
               None None None None)) \<le> nat 2"
    using aggregation_loop_bound [OF le] by (rule conjunct1)
  then show ?thesis
    by (simp add: scrape_run_endless)
qed

text \<open>
  C4, as the code has it. When a \<open>max_products\<close> that is not negative is supplied and the
  accumulated record count, after a page's filtered records are appended, reaches or
  exceeds it, the pass truncates the accumulator to exactly \<open>max_products\<close> records
  and stops; and the list the loop returns never holds more than \<open>max_products\<close>
  records.
\<close>

theorem max_products_bound:
  assumes "0 \<le> m"
  shows "length (scrape_amazon_prices rt br url_arg max_pages (Some m) lo hi tc) \<le> nat m \<and>
     (\<forall>driver all_products current_page.
        m \<le> int (length (all_products @ apply_filters rt
               (fst (scrape_products_on_current_page rt (find_elements br driver)
                  current_page)) lo hi tc)) \<longrightarrow>
        page_cycle rt br max_pages (Some m) lo hi tc driver all_products current_page =
          Break (take (nat m) (all_products @ apply_filters rt
               (fst (scrape_products_on_current_page rt (find_elements br driver)
                  current_page)) lo hi tc)) \<and>
        length (take (nat m) (all_products @ apply_filters rt
               (fst (scrape_products_on_current_page rt (find_elements br driver)
                  current_page)) lo hi tc)) = nat m)"
proof -
  obtain result final_page final_cycles where run:
    "scrape_run rt br url_arg max_pages (Some m) lo hi tc = (result, final_page, final_cycles)"
    by (cases "scrape_run rt br url_arg max_pages (Some m) lo hi tc") auto
  then have "scrape_loop rt br max_pages (Some m) lo hi tc (get br url_arg) [] 1 0 =
      (result, final_page, final_cycles)"
    by (simp add: scrape_run_def)
  with assms have "length result \<le> nat m"
    by (rule scrape_loop_length)
  then have total: "length (scrape_amazon_prices rt br url_arg max_pages (Some m) lo hi tc) \<le>
      nat m"
    by (simp add: scrape_amazon_prices_def run)
  have pass: "page_cycle rt br max_pages (Some m) lo hi tc driver all_products current_page =
          Break (take (nat m) acc) \<and> length (take (nat m) acc) = nat m"
    if "acc = all_products @ apply_filters rt
               (fst (scrape_products_on_current_page rt (find_elements br driver)
                  current_page)) lo hi tc"
      and "m \<le> int (length acc)"
    for driver all_products current_page acc
    using that assms by (auto simp: page_cycle_def Let_def slice_to_def)
  from total pass show ?thesis
    by blast
qed

text \<open>
  The theorem at \<open>max_products = 1\<close> on the one-page browser, as in
  tests/test_filters_and_cli.py: one record.
\<close>

theorem max_products_bound_witness:
  "(0 :: int) \<le> 1 \<and>
   length (scrape_amazon_prices ascii_rt (pages_browser [[sample1, sample2, sample3]]) [] 1
             (Some 1) None None None) \<le> nat 1 \<and>
   scrape_amazon_prices ascii_rt (pages_browser [[sample1, sample2, sample3]]) [] 1
     (Some 1) None None None = [product1]"
proof -
  have le: "(0 :: int) \<le> 1" by simp
  have "length (scrape_amazon_prices ascii_rt (pages_browser [[sample1, sample2, sample3]]) [] 1
             (Some 1) None None None) \<le> nat 1"
    using max_products_bound [OF le] by (rule conjunct1)
  then show ?thesis
    by (simp add: scrape_amazon_prices_def scrape_run_one_page slice_to_def)
qed

text \<open>
  C4 as stated fails for a negative \<open>max_products\<close>, which \<^verbatim>\<open>--max-products -1\<close> supplies:
  the test \<^verbatim>\<open>len(all_products) >= max_products\<close> holds at once and the slice
  \<^verbatim>\<open>all_products[:-1]\<close> drops the last record only, so the result has one record, which is
  neither exactly \<open>-1\<close> records nor at most \<open>-1\<close>.
\<close>

theorem max_products_bound_counterexample:
  "scrape_amazon_prices ascii_rt (pages_browser [[sample1, sample2, sample3]]) [] 1
     (Some (- 1)) None None None = [product1] \<and>
   \<not> int (length (scrape_amazon_prices ascii_rt
                    (pages_browser [[sample1, sample2, sample3]]) [] 1
                    (Some (- 1)) None None None)) \<le> - 1"
  by (simp add: scrape_amazon_prices_def scrape_run_one_page slice_to_def)

end
